theory Spec2Isabelle
  imports Main "HOL-Library.Word"
begin

section \<open>Go values used by the server\<close>

text \<open>
  Go's \<open>int\<close> on a 64-bit target: \<open>+\<close> and \<open>-\<close> wrap around, comparisons are signed
  (\<open>\<le>s\<close>, \<open><s\<close>), \<open>sint\<close> reads the two's complement value.
\<close>

type_synonym goint = "64 word"

text \<open>
  A Go \<open>error\<close> value that is not nil. A function returning \<open>(T, error)\<close> is modelled
  as returning a pair of options, \<open>None\<close> being nil, so that the result
  \<open>(nil, nil)\<close> stays expressible.
\<close>

datatype error =
    errorString string
  | withMessage error string

text \<open>
  \<open>errors.Wrap\<close> of github.com/pkg/errors, as the library documents it:
  "Wrap returns an error annotating err with a stack trace at the point Wrap is called,
  and the supplied message. If err is nil, Wrap returns nil."
\<close>

definition errors_Wrap :: "error option \<Rightarrow> string \<Rightarrow> error option" where
  "errors_Wrap err message =
     (case err of None \<Rightarrow> None | Some e \<Rightarrow> Some (withMessage e message))"

text \<open>
  \<open>net.JoinHostPort\<close> of the Go standard library: a host containing a colon is taken
  for a literal IPv6 address and put in square brackets.
\<close>

definition net_JoinHostPort :: "string \<Rightarrow> string \<Rightarrow> string" where
  "net_JoinHostPort host port =
     (if CHR '':'' \<in> set host then ''['' @ host @ '']:'' @ port
      else host @ '':'' @ port)"

section \<open>frontend: the RPC client constructors\<close>

text \<open>The fields of \<open>rpcclient.ConnConfig\<close> that the constructors set.\<close>

record ConnConfig =
  Host :: string
  User :: string
  Pass :: string
  HTTPPostMode :: bool
  DisableTLS :: bool

text \<open>An \<open>rpcclient.Client\<close>; it keeps the configuration it was made from.\<close>

datatype Client = Client ConnConfig

text \<open>
  The global section of a parsed ini file: \<open>cfg.Section("").Key(k).String()\<close> is the
  value of key \<open>k\<close>, and the empty string when the file has no such key.
\<close>

type_synonym inifile = "string \<rightharpoonup> string"

definition Key_String :: "inifile \<Rightarrow> string \<Rightarrow> string" where
  "Key_String cfg k = (case cfg k of None \<Rightarrow> [] | Some v \<Rightarrow> v)"

text \<open>
  \<open>NewZRPCFromCreds\<close>. The library constructor \<open>rpcclient.New\<close> is a parameter:
  it maps the configuration to the pair \<open>(*Client, error)\<close> it returns.
\<close>

definition NewZRPCFromCreds ::
  "(ConnConfig \<Rightarrow> 'r) \<Rightarrow> string \<Rightarrow> string \<Rightarrow> string \<Rightarrow> 'r" where
  "NewZRPCFromCreds rpcclient_New addr username password =
     (let connCfg = \<lparr>Host = addr, User = username, Pass = password,
                     HTTPPostMode = True, DisableTLS = True\<rparr>
      in rpcclient_New connCfg)"

text \<open>
  \<open>NewZRPCFromConf\<close>. \<open>ini.Load\<close> is a parameter: it maps the path to the error or to
  the parsed file. After a successful load the variable \<open>err\<close> is nil, and it is this
  \<open>err\<close> that the credentials check hands to \<open>errors.Wrap\<close>.
\<close>

definition NewZRPCFromConf ::
  "(string \<Rightarrow> error + inifile) \<Rightarrow> (ConnConfig \<Rightarrow> Client option \<times> error option) \<Rightarrow>
   string \<Rightarrow> Client option \<times> error option" where
  "NewZRPCFromConf ini_Load rpcclient_New confPath =
     (case ini_Load confPath of
        Inl e \<Rightarrow> (None, errors_Wrap (Some e) ''failed to read config file'')
      | Inr cfg \<Rightarrow>
          (let err = None;
               rpcaddr = Key_String cfg ''rpcbind'';
               rpcport = Key_String cfg ''rpcport'';
               username = Key_String cfg ''rpcuser'';
               password = Key_String cfg ''rpcpassword'';
               rpcaddr = (if rpcaddr = [] then ''127.0.0.1'' else rpcaddr);
               rpcport = (if rpcport = [] then ''23811'' else rpcport)
           in if username = [] \<or> password = []
              then (None, errors_Wrap err
                            ''username and/or password are not set in config file'')
              else NewZRPCFromCreds rpcclient_New
                     (net_JoinHostPort rpcaddr rpcport) username password))"

section \<open>cmd/server: the start of the process\<close>

record Options =
  bindAddr :: string
  tlsCertPath :: string
  tlsKeyPath :: string
  noTLS :: bool
  logLevel :: "64 word"
  logPath :: string
  zcashConfPath :: string
  cacheSize :: goint
  metricsPort :: "64 word"
  paramsPort :: "64 word"

text \<open>
  What the world outside \<open>main\<close> answers: the file system, the TLS loader, the ini
  parser, the RPC library, the node (through \<open>common.GetSaplingInfo\<close>, whose five
  results are sapling height, block height, chain name, branch id and error), the
  service constructor, the listener and the gRPC server. \<open>None\<close> is a nil error.
  \<open>http.ListenAndServe\<close> of the metrics goroutine serves until it fails: \<open>None\<close>
  stands for a server that keeps serving, \<open>Some err\<close> for the error it returns.
\<close>

record env =
  os_OpenFile :: "string \<Rightarrow> error option"
  NewServerTLSFromFile :: "string \<Rightarrow> string \<Rightarrow> error option"
  ini_Load :: "string \<Rightarrow> error + inifile"
  rpcclient_New :: "ConnConfig \<Rightarrow> Client option \<times> error option"
  GetSaplingInfo :: "Client option \<Rightarrow> goint \<times> goint \<times> string \<times> string \<times> error option"
  NewSQLiteStreamer :: "Client option \<Rightarrow> error option"
  net_Listen :: "string \<Rightarrow> error option"
  server_Serve :: "error option"
  http_ListenAndServe :: "64 word \<Rightarrow> error option"

datatype chan = stopChan | signals

datatype signal = SIGINT | SIGTERM

text \<open>The body of the signal handler goroutine, after it has received a signal.\<close>

datatype handler_step =
    Log_caught_signal
  | Server_GracefulStop
  | Chan_send chan bool

text \<open>
  What \<open>main\<close> does, in program order. \<open>Log_Fatal\<close> logs and then exits with status 1.
  A \<open>Go_\<close> event starts a goroutine with the arguments shown. The metrics goroutine
  runs \<open>log.Fatal(http.ListenAndServe(port, nil))\<close>: its event carries the port and
  what \<open>ListenAndServe\<close> returns, and when it returns, the goroutine logs the error
  and exits the process. The bodies of the ingestors and of the params handler are not
  part of cmd/server.
\<close>

datatype event =
    Flag_Usage
  | Println string
  | Os_Exit int
  | Log_Fatal string
  | Log_Warn string
  | Log_Info string
  | Logger_SetOutput string
  | Logger_SetFormatter_JSON
  | Logger_SetLevel "32 word"
  | Grpc_NewServer bool
  | Reflection_Register
  | NewBlockCache goint
  | Make_chan chan nat
  | Go_BlockIngestor "Client option" chan goint
  | Go_HistoricalBlockIngestor "Client option" goint goint goint
  | Signal_Notify chan "signal list"
  | Go_signal_handler chan "handler_step list"
  | Go_metrics_server "64 word" "error option"
  | Go_ParamsDownloadHandler "64 word"
  | RegisterCompactTxStreamerServer
  | Server_Serve string
  | Service_GracefulStop
  | Output_Close

definition WarnLevel :: "64 word" where
  "WarnLevel = 3"

text \<open>
  From the creation of the streamer service to the end of \<open>main\<close>. When \<open>Serve\<close>
  returns nil, \<open>main\<close> returns and the deferred calls run, last deferred first.
\<close>

definition main_serve :: "env \<Rightarrow> Options \<Rightarrow> Client option \<Rightarrow> event list" where
  "main_serve e opts rpcClient =
     Log_Info (''Starting gRPC server on '' @ bindAddr opts) #
     (case NewSQLiteStreamer e rpcClient of
        Some err \<Rightarrow> [Log_Fatal ''couldn't create SQL backend'']
      | None \<Rightarrow>
          RegisterCompactTxStreamerServer #
          (case net_Listen e (bindAddr opts) of
             Some err \<Rightarrow> [Log_Fatal ''couldn't create listener'']
           | None \<Rightarrow>
               Server_Serve (bindAddr opts) #
               (case server_Serve e of
                  Some err \<Rightarrow> [Log_Fatal ''gRPC server exited'']
                | None \<Rightarrow>
                    Service_GracefulStop #
                    (if logPath opts \<noteq> [] then [Output_Close] else []))))"

text \<open>
  The height at which the block cache importer starts: 100 blocks below the node's
  block height, but not below the sapling activation height.
\<close>

definition cacheStart_of :: "goint \<Rightarrow> goint \<Rightarrow> goint" where
  "cacheStart_of blockHeight saplingHeight =
     (let cacheStart = blockHeight - 100
      in if cacheStart <s saplingHeight then saplingHeight else cacheStart)"

text \<open>
  From \<open>GetSaplingInfo\<close> to the start of the goroutines: the two ingestors, the signal
  handler, the metrics server and the params handler.
\<close>

definition main_ingest :: "env \<Rightarrow> Options \<Rightarrow> Client option \<Rightarrow> event list" where
  "main_ingest e opts rpcClient =
     (case GetSaplingInfo e rpcClient of
        (saplingHeight, blockHeight, chainName, branchID, err) \<Rightarrow>
          (if err \<noteq> None then [Log_Warn ''Unable to get sapling activation height'']
           else []) @
          (let cacheStart = cacheStart_of blockHeight saplingHeight
           in [Log_Info ''Got sapling height'',
               NewBlockCache (cacheSize opts),
               Make_chan stopChan 1,
               Go_BlockIngestor rpcClient stopChan cacheStart,
               Go_HistoricalBlockIngestor rpcClient (cacheStart - 1) (cacheSize opts)
                 saplingHeight,
               Make_chan signals 1,
               Signal_Notify signals [SIGINT, SIGTERM],
               Go_signal_handler signals
                 [Log_caught_signal, Server_GracefulStop, Chan_send stopChan True],
               Go_metrics_server (metricsPort opts)
                 (http_ListenAndServe e (metricsPort opts)),
               Log_Info ''Starting params handler'',
               Go_ParamsDownloadHandler (paramsPort opts)]) @
          main_serve e opts rpcClient)"

text \<open>
  The RPC client: from the conf file, and when that returns an error, from the default
  address with empty credentials. Both failures are warnings.
\<close>

definition rpc_init :: "env \<Rightarrow> Options \<Rightarrow> Client option \<times> event list" where
  "rpc_init e opts =
     (case NewZRPCFromConf (ini_Load e) (rpcclient_New e) (zcashConfPath opts) of
        (rpcClient, None) \<Rightarrow> (rpcClient, [])
      | (rpcClient, Some err) \<Rightarrow>
          (case NewZRPCFromCreds (rpcclient_New e) ''127.0.0.1:23811'' [] [] of
             (rpcClient', None) \<Rightarrow>
               (rpcClient',
                [Log_Warn ''zcash.conf failed, will try empty credentials for rpc''])
           | (rpcClient', Some err') \<Rightarrow>
               (rpcClient',
                [Log_Warn ''zcash.conf failed, will try empty credentials for rpc'',
                 Log_Warn ''couldn't start rpc conn. won't be able to send transactions''])))"

definition main_rpc :: "env \<Rightarrow> Options \<Rightarrow> event list" where
  "main_rpc e opts =
     (case rpc_init e opts of (rpcClient, evs) \<Rightarrow> evs @ main_ingest e opts rpcClient)"

text \<open>The gRPC server, with transport credentials unless TLS is off.\<close>

definition main_grpc :: "env \<Rightarrow> Options \<Rightarrow> event list" where
  "main_grpc e opts =
     (let rest = (if WarnLevel \<le> logLevel opts then [Reflection_Register] else []) @
                 main_rpc e opts
      in if \<not> noTLS opts \<and> (tlsCertPath opts \<noteq> [] \<and> tlsKeyPath opts \<noteq> [])
         then (case NewServerTLSFromFile e (tlsCertPath opts) (tlsKeyPath opts) of
                 Some err \<Rightarrow> [Log_Fatal ''couldn't load TLS credentials'']
               | None \<Rightarrow> Grpc_NewServer True # rest)
         else Grpc_NewServer False # rest)"

definition main_log :: "env \<Rightarrow> Options \<Rightarrow> event list" where
  "main_log e opts =
     (let rest = Logger_SetLevel (ucast (logLevel opts)) # main_grpc e opts
      in if logPath opts \<noteq> []
         then (case os_OpenFile e (logPath opts) of
                 Some err \<Rightarrow> [Log_Fatal ''couldn't open log file'']
               | None \<Rightarrow>
                   Logger_SetOutput (logPath opts) # Logger_SetFormatter_JSON # rest)
         else rest)"

text \<open>\<open>main\<close>, after \<open>flag.Parse\<close> has filled the options.\<close>

definition main :: "env \<Rightarrow> Options \<Rightarrow> event list" where
  "main e opts =
     (if zcashConfPath opts = [] then [Flag_Usage, Os_Exit 1]
      else if \<not> noTLS opts \<and> (tlsCertPath opts = [] \<or> tlsKeyPath opts = [])
      then [Println ''Please specify a TLS certificate/key to use. You can use a self-signed certificate.'',
            Println (''See 'https://github.com/adityapk00/lightwalletd/blob/master/README.md#running-your-own-zeclite-lightwalletd'' @ [CHR 0x27]),
            Os_Exit 1]
      else main_log e opts)"

text \<open>
  Reading a trace. An exit of \<open>main\<close> itself ends the process, so it can only be the
  last event of a trace. A goroutine that exits the process does so at some moment
  after its start: the events before its start have happened, the later ones need not.
\<close>

fun is_exit :: "event \<Rightarrow> bool" where
  "is_exit (Os_Exit c) = True"
| "is_exit (Log_Fatal m) = True"
| "is_exit ev = False"

fun goroutine_exit :: "event \<Rightarrow> bool" where
  "goroutine_exit (Go_metrics_server port (Some err)) = True"
| "goroutine_exit ev = False"

text \<open>The process got past the flag checks, the log file and the TLS files.\<close>

definition startup_ok :: "env \<Rightarrow> Options \<Rightarrow> bool" where
  "startup_ok e opts \<longleftrightarrow>
     zcashConfPath opts \<noteq> [] \<and>
     (noTLS opts \<or>
        (tlsCertPath opts \<noteq> [] \<and> tlsKeyPath opts \<noteq> [] \<and>
         NewServerTLSFromFile e (tlsCertPath opts) (tlsKeyPath opts) = None)) \<and>
     (logPath opts = [] \<or> os_OpenFile e (logPath opts) = None)"

text \<open>
  The RPC client that \<open>main\<close> ends up with, and the two heights that
  \<open>GetSaplingInfo\<close> reports for it.
\<close>

definition rpcClient_of :: "env \<Rightarrow> Options \<Rightarrow> Client option" where
  "rpcClient_of e opts = fst (rpc_init e opts)"

definition saplingHeight_of :: "env \<Rightarrow> Options \<Rightarrow> goint" where
  "saplingHeight_of e opts = fst (GetSaplingInfo e (rpcClient_of e opts))"

definition blockHeight_of :: "env \<Rightarrow> Options \<Rightarrow> goint" where
  "blockHeight_of e opts = fst (snd (GetSaplingInfo e (rpcClient_of e opts)))"

text \<open>The two ingestor goroutines of a start that got as far as the ingestors.\<close>

definition spawned :: "env \<Rightarrow> Options \<Rightarrow> event list" where
  "spawned e opts =
     [Go_BlockIngestor (rpcClient_of e opts) stopChan
        (cacheStart_of (blockHeight_of e opts) (saplingHeight_of e opts)),
      Go_HistoricalBlockIngestor (rpcClient_of e opts)
        (cacheStart_of (blockHeight_of e opts) (saplingHeight_of e opts) - 1)
        (cacheSize opts) (saplingHeight_of e opts)]"

text \<open>The arguments the two ingestors were started with.\<close>

fun live_start :: "event \<Rightarrow> goint option" where
  "live_start (Go_BlockIngestor c ch start) = Some start"
| "live_start ev = None"

fun historical_args :: "event \<Rightarrow> (goint \<times> goint \<times> goint) option" where
  "historical_args (Go_HistoricalBlockIngestor c start n fl) = Some (start, n, fl)"
| "historical_args ev = None"

text \<open>
  The channels a goroutine was given, and the channels the signal handler sends on.
  An ingestor is told to stop when the handler sends on a channel the ingestor holds.
\<close>

fun is_ingestor :: "event \<Rightarrow> bool" where
  "is_ingestor (Go_BlockIngestor c ch start) = True"
| "is_ingestor (Go_HistoricalBlockIngestor c start n fl) = True"
| "is_ingestor ev = False"

fun held_chans :: "event \<Rightarrow> chan list" where
  "held_chans (Go_BlockIngestor c ch start) = [ch]"
| "held_chans ev = []"

fun step_sends :: "handler_step \<Rightarrow> chan list" where
  "step_sends (Chan_send ch v) = [ch]"
| "step_sends st = []"

fun handler_sends :: "event \<Rightarrow> chan list" where
  "handler_sends (Go_signal_handler ch steps) = concat (map step_sends steps)"
| "handler_sends ev = []"

definition stop_signalled :: "event list \<Rightarrow> event \<Rightarrow> bool" where
  "stop_signalled t ev \<longleftrightarrow>
     list_ex (\<lambda>ch. ch \<in> set (concat (map handler_sends t))) (held_chans ev)"

text \<open>Concrete inputs: the flag defaults with a conf file, and a world where every call succeeds.\<close>

definition opts_default :: Options where
  "opts_default =
     \<lparr>bindAddr = ''127.0.0.1:9067'', tlsCertPath = [], tlsKeyPath = [], noTLS = False,
      logLevel = 4, logPath = [], zcashConfPath = ''zero.conf'', cacheSize = 40000,
      metricsPort = 2234, paramsPort = 8090\<rparr>"

definition conf_full :: inifile where
  "conf_full = [''rpcuser'' \<mapsto> ''zero'', ''rpcpassword'' \<mapsto> ''secret'']"

definition opts_no_tls :: Options where
  "opts_no_tls = opts_default\<lparr>noTLS := True\<rparr>"

definition env_up :: env where
  "env_up =
     \<lparr>os_OpenFile = (\<lambda>p. None),
      NewServerTLSFromFile = (\<lambda>c k. None),
      ini_Load = (\<lambda>p. Inr conf_full),
      rpcclient_New = (\<lambda>cfg. (Some (Client cfg), None)),
      GetSaplingInfo = (\<lambda>c. (492850, 1000000, ''main'', ''2bb40e60'', None)),
      NewSQLiteStreamer = (\<lambda>c. None),
      net_Listen = (\<lambda>a. None),
      server_Serve = None,
      http_ListenAndServe = (\<lambda>port. None)\<rparr>"

text \<open>A world where the conf file cannot be read.\<close>

definition env_no_conf :: env where
  "env_no_conf =
     env_up\<lparr>ini_Load :=
              (\<lambda>p. Inl (errorString ''open zero.conf: no such file or directory''))\<rparr>"

text \<open>A world where the conf file parses and sets only the port.\<close>

definition env_no_creds :: env where
  "env_no_creds = env_up\<lparr>ini_Load := (\<lambda>p. Inr [''rpcport'' \<mapsto> ''23811''])\<rparr>"

section \<open>common: the metrics\<close>










section \<open>common: the block cache\<close>

text \<open>
  Modelled from the spec: the block cache (\<open>common.NewBlockCache\<close> and the operations
  of the cache; cmd/server only constructs it and hands it to the ingestors and to the
  service). The data model and the contracts of the operations are those of the
  specification's sections on the data model and on the BlockCache component.
\<close>

record CompactBlock =
  height :: nat
  hash :: "8 word list"
  prevHash :: "8 word list"
  timestamp :: nat
  transactions :: "8 word list list"

text \<open>
  Modelled from the spec: the cache is a mapping from height to block over a closed
  interval \<open>[lo, hi]\<close> of heights, with a fixed capacity. \<open>window\<close> is \<open>None\<close> for the
  empty cache.
\<close>

record BlockCache =
  blocks :: "nat \<rightharpoonup> CompactBlock"
  window :: "(nat \<times> nat) option"
  capacity :: nat

datatype cache_error = HeightGap | HashMismatch

text \<open>Modelled from the spec: the cache is created empty with a fixed capacity.\<close>

definition EmptyBlockCache :: "nat \<Rightarrow> BlockCache" where
  "EmptyBlockCache n = \<lparr>blocks = Map.empty, window = None, capacity = n\<rparr>"

text \<open>Modelled from the spec: point lookup, and the upper end of the window.\<close>

definition GetBlock :: "BlockCache \<Rightarrow> nat \<Rightarrow> CompactBlock option" where
  "GetBlock c h = blocks c h"

definition GetLatestHeight :: "BlockCache \<Rightarrow> nat option" where
  "GetLatestHeight c = map_option snd (window c)"

text \<open>
  Modelled from the spec: while \<open>hi - lo + 1 > capacity\<close>, remove the entry at \<open>lo\<close>
  and increment \<open>lo\<close>.
\<close>

function EvictOldestIfOverCapacity :: "BlockCache \<Rightarrow> BlockCache" where
  "EvictOldestIfOverCapacity c =
     (case window c of
        None \<Rightarrow> c
      | Some (lo, hi) \<Rightarrow>
          if hi - lo + 1 > capacity c
          then EvictOldestIfOverCapacity
                 (c\<lparr>blocks := (blocks c)(lo := None),
                    window := (if lo < hi then Some (lo + 1, hi) else None)\<rparr>)
          else c)"
  by pat_completeness auto
termination
  by (relation "measure (\<lambda>c. case window c of None \<Rightarrow> 0 | Some (lo, hi) \<Rightarrow> Suc (hi - lo))")
     auto

declare EvictOldestIfOverCapacity.simps [simp del]

text \<open>
  Modelled from the spec: \<open>Add\<close> appends at \<open>hi + 1\<close> or prepends at \<open>lo - 1\<close>. It
  rejects a block at any other height, and a block whose hashes do not link with the
  adjacent resident block; a rejected \<open>Add\<close> leaves the cache as it was. The eviction
  policy runs after an accepted append. The first block of an empty cache has no
  neighbour and is accepted.
\<close>

definition Add :: "CompactBlock \<Rightarrow> BlockCache \<Rightarrow> cache_error + BlockCache" where
  "Add b c =
     (case window c of
        None \<Rightarrow>
          Inr (EvictOldestIfOverCapacity
                 (c\<lparr>blocks := (blocks c)(height b \<mapsto> b),
                    window := Some (height b, height b)\<rparr>))
      | Some (lo, hi) \<Rightarrow>
          if height b = hi + 1
          then (case blocks c hi of
                  Some tip \<Rightarrow>
                    if prevHash b = hash tip
                    then Inr (EvictOldestIfOverCapacity
                                (c\<lparr>blocks := (blocks c)(height b \<mapsto> b),
                                   window := Some (lo, height b)\<rparr>))
                    else Inl HashMismatch
                | None \<Rightarrow> Inl HeightGap)
          else if height b + 1 = lo
          then (case blocks c lo of
                  Some oldest \<Rightarrow>
                    if prevHash oldest = hash b
                    then Inr (c\<lparr>blocks := (blocks c)(height b \<mapsto> b),
                               window := Some (height b, hi)\<rparr>)
                    else Inl HashMismatch
                | None \<Rightarrow> Inl HeightGap)
          else Inl HeightGap)"

text \<open>Modelled from the spec: drop every resident entry at \<open>fromHeight\<close> and above.\<close>

definition Truncate :: "nat \<Rightarrow> BlockCache \<Rightarrow> BlockCache" where
  "Truncate fromHeight c =
     (case window c of
        None \<Rightarrow> c
      | Some (lo, hi) \<Rightarrow>
          if hi < fromHeight then c
          else c\<lparr>blocks := (\<lambda>h. if fromHeight \<le> h then None else blocks c h),
                 window := (if lo < fromHeight then Some (lo, fromHeight - 1) else None)\<rparr>)"

text \<open>
  The operations that change the cache, and the states reached from the empty cache
  by a sequence of them.
\<close>

datatype cache_op = Op_Add CompactBlock | Op_Truncate nat | Op_Evict

fun cache_step :: "BlockCache \<Rightarrow> cache_op \<Rightarrow> BlockCache" where
  "cache_step c (Op_Add b) = (case Add b c of Inl err \<Rightarrow> c | Inr c' \<Rightarrow> c')"
| "cache_step c (Op_Truncate fromHeight) = Truncate fromHeight c"
| "cache_step c Op_Evict = EvictOldestIfOverCapacity c"

definition cache_run :: "nat \<Rightarrow> cache_op list \<Rightarrow> BlockCache" where
  "cache_run n ops = foldl cache_step (EmptyBlockCache n) ops"

text \<open>
  The invariant of the reachable states: the resident heights are exactly the window,
  and each resident block above the lower end links to the block below it.
\<close>

definition cache_inv :: "BlockCache \<Rightarrow> bool" where
  "cache_inv c \<longleftrightarrow>
     (case window c of
        None \<Rightarrow> (\<forall>h. blocks c h = None)
      | Some (lo, hi) \<Rightarrow>
          lo \<le> hi \<and> (\<forall>h. blocks c h \<noteq> None \<longleftrightarrow> lo \<le> h \<and> h \<le> hi) \<and>
          (\<forall>h b1 b2. blocks c h = Some b1 \<longrightarrow> blocks c (Suc h) = Some b2 \<longrightarrow>
             prevHash b2 = hash b1))"

text \<open>A block for the examples, with one-byte hashes and no transactions.\<close>

definition blk :: "nat \<Rightarrow> 8 word \<Rightarrow> 8 word \<Rightarrow> CompactBlock" where
  "blk h hsh prev =
     \<lparr>height = h, hash = [hsh], prevHash = [prev], timestamp = 0, transactions = []\<rparr>"

text \<open>
  A run on a cache of capacity 2: two linked blocks, a block at height 3 that does not
  link (rejected), one that links (accepted, and height 1 is evicted), a reorg that
  drops height 3, the replacement block, and a last run of the eviction policy.
\<close>

definition example_ops :: "cache_op list" where
  "example_ops =
     [Op_Add (blk 1 10 9), Op_Add (blk 2 20 10), Op_Add (blk 3 77 66), Op_Add (blk 3 30 20),
      Op_Truncate 3, Op_Add (blk 3 31 20), Op_Evict]"

section \<open>Facts about the start of the process\<close>

lemmas eval_main = main_def main_log_def main_grpc_def main_rpc_def rpc_init_def main_ingest_def
  main_serve_def env_up_def opts_no_tls_def opts_default_def NewZRPCFromConf_def
  NewZRPCFromCreds_def Key_String_def conf_full_def errors_Wrap_def
  net_JoinHostPort_def cacheStart_of_def WarnLevel_def Let_def

subsection \<open>The ingestors of a trace\<close>

lemma serve_ingestors: "filter is_ingestor (main_serve e opts rc) = []"
  by (simp add: main_serve_def split: option.splits)

lemma ingest_ingestors:
  "filter is_ingestor (main_ingest e opts rc) =
     [Go_BlockIngestor rc stopChan
        (cacheStart_of (fst (snd (GetSaplingInfo e rc))) (fst (GetSaplingInfo e rc))),
      Go_HistoricalBlockIngestor rc
        (cacheStart_of (fst (snd (GetSaplingInfo e rc))) (fst (GetSaplingInfo e rc)) - 1)
        (cacheSize opts) (fst (GetSaplingInfo e rc))]"
  by (simp add: main_ingest_def serve_ingestors Let_def split: prod.splits)

lemma rpc_init_events:
  "set (snd (rpc_init e opts)) \<subseteq>
     {Log_Warn ''zcash.conf failed, will try empty credentials for rpc'',
      Log_Warn ''couldn't start rpc conn. won't be able to send transactions''}"
  by (simp add: rpc_init_def split: prod.splits option.splits)

lemma rpc_ingestors: "filter is_ingestor (main_rpc e opts) = spawned e opts"
  using rpc_init_events [of e opts]
  by (auto simp add: main_rpc_def ingest_ingestors spawned_def rpcClient_of_def
        saplingHeight_of_def blockHeight_of_def filter_empty_conv split: prod.splits)

lemma main_ingestors:
  "filter is_ingestor (main e opts) = (if startup_ok e opts then spawned e opts else [])"
  by (auto simp add: main_def main_log_def main_grpc_def rpc_ingestors startup_ok_def Let_def
        split: option.splits)

subsection \<open>The channels the signal handler sends on\<close>

lemma serve_sends: "concat (map handler_sends (main_serve e opts rc)) = []"
  by (simp add: main_serve_def split: option.splits)

lemma ingest_sends: "concat (map handler_sends (main_ingest e opts rc)) = [stopChan]"
  by (simp add: main_ingest_def serve_sends Let_def split: prod.splits)

lemma rpc_sends: "concat (map handler_sends (main_rpc e opts)) = [stopChan]"
  using rpc_init_events [of e opts]
  by (auto simp add: main_rpc_def ingest_sends split: prod.splits)

lemma main_sends:
  "concat (map handler_sends (main e opts)) = (if startup_ok e opts then [stopChan] else [])"
  by (auto simp add: main_def main_log_def main_grpc_def rpc_sends startup_ok_def Let_def
        split: option.splits)

subsection \<open>Nothing exits before the ingestors are started\<close>

lemma ingest_until_ingestors:
  "\<exists>pre post. main_ingest e opts rc =
      pre @ [Go_BlockIngestor rc stopChan
               (cacheStart_of (fst (snd (GetSaplingInfo e rc))) (fst (GetSaplingInfo e rc))),
             Go_HistoricalBlockIngestor rc
               (cacheStart_of (fst (snd (GetSaplingInfo e rc))) (fst (GetSaplingInfo e rc)) - 1)
               (cacheSize opts) (fst (GetSaplingInfo e rc))] @ post \<and>
      \<not> list_ex is_exit pre \<and> \<not> list_ex goroutine_exit pre"
proof -
  obtain sh bh cn br err where g: "GetSaplingInfo e rc = (sh, bh, cn, br, err)"
    by (cases "GetSaplingInfo e rc" rule: prod_cases5)
  let ?pre = "(if err \<noteq> None then [Log_Warn ''Unable to get sapling activation height'']
               else []) @
              [Log_Info ''Got sapling height'', NewBlockCache (cacheSize opts),
               Make_chan stopChan 1]"
  let ?post = "[Make_chan signals 1,
               Signal_Notify signals [SIGINT, SIGTERM],
               Go_signal_handler signals
                 [Log_caught_signal, Server_GracefulStop, Chan_send stopChan True],
               Go_metrics_server (metricsPort opts)
                 (http_ListenAndServe e (metricsPort opts)),
               Log_Info ''Starting params handler'',
               Go_ParamsDownloadHandler (paramsPort opts)] @ main_serve e opts rc"
  have "main_ingest e opts rc =
      ?pre @ [Go_BlockIngestor rc stopChan (cacheStart_of bh sh),
             Go_HistoricalBlockIngestor rc (cacheStart_of bh sh - 1) (cacheSize opts) sh] @ ?post"
    by (simp add: main_ingest_def g Let_def)
  moreover have "\<not> list_ex is_exit ?pre \<and> \<not> list_ex goroutine_exit ?pre"
    by simp
  ultimately show ?thesis
    unfolding g by (intro exI [of _ ?pre] exI [of _ ?post]) simp
qed

lemma rpc_until_ingestors:
  "\<exists>pre post. main_rpc e opts = (snd (rpc_init e opts) @ pre) @ spawned e opts @ post \<and>
      \<not> list_ex is_exit pre \<and> \<not> list_ex goroutine_exit pre"
proof -
  have "main_rpc e opts = snd (rpc_init e opts) @ main_ingest e opts (rpcClient_of e opts)"
    by (cases "rpc_init e opts") (simp add: main_rpc_def rpcClient_of_def)
  with ingest_until_ingestors [of e opts "rpcClient_of e opts"] show ?thesis
    by (auto simp add: spawned_def saplingHeight_of_def blockHeight_of_def)
qed

lemma rpc_init_no_exit:
  "\<not> list_ex is_exit (snd (rpc_init e opts)) \<and> \<not> list_ex goroutine_exit (snd (rpc_init e opts))"
  using rpc_init_events [of e opts] by (auto simp add: list_ex_iff)

lemma main_until_rpc:
  "startup_ok e opts \<Longrightarrow>
   \<exists>pre. main e opts = pre @ main_rpc e opts \<and>
         \<not> list_ex is_exit pre \<and> \<not> list_ex goroutine_exit pre"
proof -
  assume ok: "startup_ok e opts"
  let ?a = "if logPath opts \<noteq> []
            then [Logger_SetOutput (logPath opts), Logger_SetFormatter_JSON] else []"
  let ?b = "[Logger_SetLevel (ucast (logLevel opts)), Grpc_NewServer (\<not> noTLS opts)]"
  let ?c = "if WarnLevel \<le> logLevel opts then [Reflection_Register] else []"
  have "main e opts = (?a @ ?b @ ?c) @ main_rpc e opts"
    using ok
    by (auto simp add: main_def main_log_def main_grpc_def startup_ok_def Let_def)
  moreover have "\<not> list_ex is_exit (?a @ ?b @ ?c) \<and> \<not> list_ex goroutine_exit (?a @ ?b @ ?c)"
    by simp
  ultimately show ?thesis by blast
qed

lemma main_until_ingestors:
  assumes "startup_ok e opts"
  shows "\<exists>pre post. main e opts = pre @ spawned e opts @ post \<and>
           set (snd (rpc_init e opts)) \<subseteq> set pre \<and>
           \<not> list_ex is_exit pre \<and> \<not> list_ex goroutine_exit pre"
proof -
  from main_until_rpc [OF assms] obtain p1 where
    1: "main e opts = p1 @ main_rpc e opts" "\<not> list_ex is_exit p1" "\<not> list_ex goroutine_exit p1"
    by blast
  from rpc_until_ingestors [of e opts] obtain p2 post where
    2: "main_rpc e opts = (snd (rpc_init e opts) @ p2) @ spawned e opts @ post"
       "\<not> list_ex is_exit p2" "\<not> list_ex goroutine_exit p2"
    by blast
  let ?pre = "p1 @ snd (rpc_init e opts) @ p2"
  have "main e opts = ?pre @ spawned e opts @ post"
    using 1(1) 2(1) by simp
  moreover have "\<not> list_ex is_exit ?pre \<and> \<not> list_ex goroutine_exit ?pre"
    using 1 2 rpc_init_no_exit [of e opts] by simp
  moreover have "set (snd (rpc_init e opts)) \<subseteq> set ?pre" by auto
  ultimately show ?thesis by blast
qed

subsection \<open>Each stage is part of the trace\<close>

lemma rpc_in_main: "startup_ok e opts \<Longrightarrow> set (main_rpc e opts) \<subseteq> set (main e opts)"
  by (auto simp add: main_def main_log_def main_grpc_def startup_ok_def Let_def
        split: option.splits)

lemma ingest_in_rpc: "set (main_ingest e opts (rpcClient_of e opts)) \<subseteq> set (main_rpc e opts)"
  by (cases "rpc_init e opts") (auto simp add: main_rpc_def rpcClient_of_def)

lemma handler_in_ingest:
  "Signal_Notify signals [SIGINT, SIGTERM] \<in> set (main_ingest e opts rc) \<and>
   Go_signal_handler signals [Log_caught_signal, Server_GracefulStop, Chan_send stopChan True]
     \<in> set (main_ingest e opts rc)"
  by (cases "GetSaplingInfo e rc" rule: prod_cases5) (simp add: main_ingest_def Let_def)

lemma startup_ok_up: "startup_ok env_up opts_no_tls"
  by (simp add: startup_ok_def env_up_def opts_no_tls_def opts_default_def)

subsection \<open>The TLS paths do not matter once TLS is off\<close>

lemma serve_tls:
  "main_serve e (opts\<lparr>tlsCertPath := c, tlsKeyPath := k\<rparr>) rc = main_serve e opts rc"
  by (simp add: main_serve_def cong: option.case_cong)

lemma ingest_tls:
  "main_ingest e (opts\<lparr>tlsCertPath := c, tlsKeyPath := k\<rparr>) rc = main_ingest e opts rc"
  by (simp add: main_ingest_def serve_tls)

lemma rpc_tls: "main_rpc e (opts\<lparr>tlsCertPath := c, tlsKeyPath := k\<rparr>) = main_rpc e opts"
  by (simp add: main_rpc_def rpc_init_def ingest_tls)

subsection \<open>The start height\<close>

lemma sint_sub100: "- (2^63) + 100 \<le> sint (b::64 word) \<Longrightarrow> sint (b - 100) = sint b - 100"
  using sint_lt [of b]
  by (simp add: sint_word_ariths signed_take_bit_int_eq_self)

lemma sint_pred: "- (2^63) < sint (b::64 word) \<Longrightarrow> sint (b - 1) = sint b - 1"
  using sint_lt [of b]
  by (simp add: sint_word_ariths signed_take_bit_int_eq_self)

lemma cacheStart_ge_sapling: "saplingHeight \<le>s cacheStart_of blockHeight saplingHeight"
  unfolding cacheStart_of_def Let_def word_sless_alt word_sle_eq by simp

lemma cacheStart_ge_block: "blockHeight - 100 \<le>s cacheStart_of blockHeight saplingHeight"
  unfolding cacheStart_of_def Let_def word_sless_alt word_sle_eq by simp

lemma cacheStart_cases:
  "cacheStart_of blockHeight saplingHeight = saplingHeight \<or>
   cacheStart_of blockHeight saplingHeight = blockHeight - 100"
  by (simp add: cacheStart_of_def Let_def)

lemma cacheStart_sint:
  "- (2^63) + 100 \<le> sint blockHeight \<Longrightarrow>
   sint (cacheStart_of blockHeight saplingHeight) =
     max (sint blockHeight - 100) (sint saplingHeight)"
  by (simp add: cacheStart_of_def Let_def word_sless_alt sint_sub100 max_def)

lemma live_start_ingestors:
  "List.map_filter live_start t = List.map_filter live_start (filter is_ingestor t)"
proof (induction t)
  case Nil
  show ?case by simp
next
  case (Cons ev t)
  then show ?case by (cases ev) simp_all
qed

lemma historical_args_ingestors:
  "List.map_filter historical_args t =
   List.map_filter historical_args (filter is_ingestor t)"
proof (induction t)
  case Nil
  show ?case by simp
next
  case (Cons ev t)
  then show ?case by (cases ev) simp_all
qed

section \<open>Facts about the block cache\<close>

lemma inv_empty: "cache_inv (EmptyBlockCache n)"
  by (simp add: cache_inv_def EmptyBlockCache_def)

lemma inv_evict: "cache_inv c \<Longrightarrow> cache_inv (EvictOldestIfOverCapacity c)"
proof (induction c rule: EvictOldestIfOverCapacity.induct)
  case (1 c)
  show ?case
  proof (cases "window c")
    case None
    with "1.prems" show ?thesis by (subst EvictOldestIfOverCapacity.simps) simp
  next
    case (Some w)
    obtain lo hi where w: "w = (lo, hi)" by (cases w)
    show ?thesis
    proof (cases "hi - lo + 1 > capacity c")
      case False
      with Some w "1.prems" show ?thesis by (subst EvictOldestIfOverCapacity.simps) simp
    next
      case True
      let ?c' = "c\<lparr>blocks := (blocks c)(lo := None),
                    window := (if lo < hi then Some (lo + 1, hi) else None)\<rparr>"
      from "1.prems" Some w
      have i: "lo \<le> hi" "\<And>h. blocks c h \<noteq> None \<longleftrightarrow> lo \<le> h \<and> h \<le> hi"
        and l: "\<And>h b1 b2. blocks c h = Some b1 \<Longrightarrow> blocks c (Suc h) = Some b2 \<Longrightarrow>
                  prevHash b2 = hash b1"
        by (auto simp add: cache_inv_def)
      let ?m = "(blocks c)(lo := None)"
      have m: "?m h \<noteq> None \<longleftrightarrow> lo < h \<and> h \<le> hi" for h
        using i(2) [of h] by auto
      have k: "?m h = Some b1 \<Longrightarrow> ?m (Suc h) = Some b2 \<Longrightarrow> prevHash b2 = hash b1"
        for h b1 b2
        using l [of h b1 b2] by (simp split: if_splits)
      have "cache_inv ?c'"
      proof (cases "lo < hi")
        case True
        have "?m h \<noteq> None \<longleftrightarrow> lo + 1 \<le> h \<and> h \<le> hi" for h
          using m [of h] by auto
        with True k show ?thesis
          unfolding cache_inv_def by (simp del: not_None_eq fun_upd_apply)
      next
        case False
        have "?m h = None" for h
          using m [of h] False by auto
        with False show ?thesis
          unfolding cache_inv_def by (simp del: fun_upd_apply)
      qed
      from "1.IH" [OF Some w [symmetric] True this] Some w True show ?thesis
        by (subst EvictOldestIfOverCapacity.simps) simp
    qed
  qed
qed

lemma inv_truncate: "cache_inv c \<Longrightarrow> cache_inv (Truncate f c)"
proof (cases "window c")
  case None
  assume "cache_inv c"
  with None show ?thesis by (simp add: Truncate_def)
next
  case (Some w)
  assume inv: "cache_inv c"
  obtain lo hi where w: "w = (lo, hi)" by (cases w)
  from inv Some w have i: "lo \<le> hi" "\<And>h. blocks c h \<noteq> None \<longleftrightarrow> lo \<le> h \<and> h \<le> hi"
    and l: "\<And>h b1 b2. blocks c h = Some b1 \<Longrightarrow> blocks c (Suc h) = Some b2 \<Longrightarrow> prevHash b2 = hash b1"
    by (auto simp add: cache_inv_def)
  show ?thesis
  proof (cases "hi < f")
    case True
    with Some w inv show ?thesis by (simp add: Truncate_def)
  next
    case False
    let ?m = "\<lambda>h. if f \<le> h then None else blocks c h"
    have t: "Truncate f c =
             c\<lparr>blocks := ?m, window := (if lo < f then Some (lo, f - 1) else None)\<rparr>"
      using Some w False by (simp add: Truncate_def)
    have m: "?m h \<noteq> None \<longleftrightarrow> lo \<le> h \<and> h < f" for h
      using i(2) [of h] False by auto
    have k: "?m h = Some b1 \<Longrightarrow> ?m (Suc h) = Some b2 \<Longrightarrow> prevHash b2 = hash b1" for h b1 b2
      using l [of h b1 b2] by (simp split: if_splits)
    show ?thesis
    proof (cases "lo < f")
      case True
      have "?m h \<noteq> None \<longleftrightarrow> lo \<le> h \<and> h \<le> f - 1" for h
        using m [of h] True by auto
      with True k show ?thesis
        unfolding t cache_inv_def by (simp del: not_None_eq)
    next
      case nlt: False
      have "?m h = None" for h
        using m [of h] nlt by auto
      with nlt show ?thesis
        unfolding t cache_inv_def by simp
    qed
  qed
qed

lemma inv_add: "cache_inv c \<Longrightarrow> Add b c = Inr c' \<Longrightarrow> cache_inv c'"
proof (cases "window c")
  case None
  assume inv: "cache_inv c" and a: "Add b c = Inr c'"
  from inv None have "cache_inv (c\<lparr>blocks := (blocks c)(height b \<mapsto> b),
                    window := Some (height b, height b)\<rparr>)"
    by (auto simp add: cache_inv_def)
  from inv_evict [OF this] a None show ?thesis by (simp add: Add_def)
next
  case (Some w)
  assume inv: "cache_inv c" and a: "Add b c = Inr c'"
  obtain lo hi where w: "w = (lo, hi)" by (cases w)
  from inv Some w have i: "lo \<le> hi" "\<And>h. blocks c h \<noteq> None \<longleftrightarrow> lo \<le> h \<and> h \<le> hi"
    and l: "\<And>h b1 b2. blocks c h = Some b1 \<Longrightarrow> blocks c (Suc h) = Some b2 \<Longrightarrow> prevHash b2 = hash b1"
    by (auto simp add: cache_inv_def)
  show ?thesis
  proof (cases "height b = hi + 1")
    case True
    with a Some w obtain tip where t: "blocks c hi = Some tip" "prevHash b = hash tip"
      and c': "c' = EvictOldestIfOverCapacity
                                (c\<lparr>blocks := (blocks c)(height b \<mapsto> b),
                                   window := Some (lo, height b)\<rparr>)"
      by (auto simp add: Add_def split: option.splits if_splits)
    have n: "blocks c (Suc (height b)) = None" using True i(2) [of "Suc (height b)"] by simp
    have "cache_inv (c\<lparr>blocks := (blocks c)(height b \<mapsto> b),
                                   window := Some (lo, height b)\<rparr>)"
      unfolding cache_inv_def using t True l i n
      by (auto simp add: le_Suc_eq)
    with c' show ?thesis by (simp add: inv_evict)
  next
    case False
    with a Some w obtain oldest where p: "height b + 1 = lo" "blocks c lo = Some oldest"
       "prevHash oldest = hash b"
      and c': "c' = c\<lparr>blocks := (blocks c)(height b \<mapsto> b), window := Some (height b, hi)\<rparr>"
      by (auto simp add: Add_def split: option.splits if_splits)
    have n: "blocks c h = None" if "Suc h = height b" for h
      using that p i(2) [of h] by simp
    show ?thesis
      unfolding cache_inv_def c' using p l i n
      apply (auto simp add: le_Suc_eq)
      done
  qed
qed

lemma inv_step: "cache_inv c \<Longrightarrow> cache_inv (cache_step c x)"
  by (cases x) (auto simp add: inv_truncate inv_evict inv_add split: sum.splits)

lemma inv_foldl: "cache_inv c \<Longrightarrow> cache_inv (foldl cache_step c ops)"
  by (induction ops arbitrary: c) (simp_all add: inv_step)

lemma inv_link:
  "cache_inv c \<Longrightarrow> blocks c h = Some b1 \<Longrightarrow> blocks c (Suc h) = Some b2 \<Longrightarrow> prevHash b2 = hash b1"
  by (cases "window c") (auto simp add: cache_inv_def)

section \<open>The block cache keeps the hash chain\<close>

text \<open>
  C1. In every state that a sequence of \<open>Add\<close>, \<open>Truncate\<close> and eviction operations
  reaches from the empty cache, two resident blocks at adjacent heights \<open>h\<close> and
  \<open>h + 1\<close> are linked: the previous-block hash of the upper one is the hash of the
  lower one.
\<close>

theorem cache_adjacent_blocks_linked:
  assumes "blocks (cache_run n ops) h = Some b1"
    and "blocks (cache_run n ops) (h + 1) = Some b2"
  shows "prevHash b2 = hash b1"
  using inv_link [OF inv_foldl [OF inv_empty], of n ops h b1 b2] assms
  by (simp add: cache_run_def)

text \<open>
  The example run ends with heights 2 and 3 resident, 3 being the replacement block of
  the reorg, and the two are linked.
\<close>

theorem cache_adjacent_blocks_linked_witness:
  "blocks (cache_run 2 example_ops) 2 = Some (blk 2 20 10) \<and>
   blocks (cache_run 2 example_ops) (2 + 1) = Some (blk 3 31 20) \<and>
   prevHash (blk 3 31 20) = hash (blk 2 20 10)"
proof -
  have 2: "blocks (cache_run 2 example_ops) 2 = Some (blk 2 20 10)"
    by (simp add: cache_run_def example_ops_def EmptyBlockCache_def Add_def Truncate_def
          blk_def EvictOldestIfOverCapacity.simps)
  have 3: "blocks (cache_run 2 example_ops) (2 + 1) = Some (blk 3 31 20)"
    by (simp add: cache_run_def example_ops_def EmptyBlockCache_def Add_def Truncate_def
          blk_def EvictOldestIfOverCapacity.simps)
  from 2 3 cache_adjacent_blocks_linked [OF 2 3] show ?thesis by simp
qed

section \<open>The RPC client constructors\<close>

text \<open>
  C2. A conf file that parses but sets no \<open>rpcuser\<close> and no \<open>rpcpassword\<close>: the
  credentials check of \<open>NewZRPCFromConf\<close> wraps the nil error of the successful load,
  so the function returns a nil client together with a nil error, and \<open>main\<close>, seeing
  no error, keeps the nil client without a warning and without the fallback.
\<close>

theorem NewZRPCFromConf_missing_credentials_nil_error:
  "NewZRPCFromConf (ini_Load env_no_creds) (rpcclient_New env_no_creds) ''zero.conf'' =
     (None, None) \<and>
   rpc_init env_no_creds opts_no_tls = (None, [])"
  by (simp add: eval_main env_no_creds_def)

text \<open>
  C6. For every address, user name and password, \<open>NewZRPCFromCreds\<close> hands the
  library constructor one configuration, with TLS disabled, HTTP POST mode enabled, and
  the address, user name and password as given.
\<close>

theorem NewZRPCFromCreds_plaintext_post:
  "\<exists>cfg. DisableTLS cfg \<and> HTTPPostMode cfg \<and>
         Host cfg = addr \<and> User cfg = username \<and> Pass cfg = password \<and>
         (\<forall>new. NewZRPCFromCreds new addr username password = new cfg)"
  by (rule exI [of _ "\<lparr>Host = addr, User = username, Pass = password,
                       HTTPPostMode = True, DisableTLS = True\<rparr>"])
     (simp add: NewZRPCFromCreds_def)

text \<open>
  C7. When the conf file parses and sets both credentials, \<open>NewZRPCFromConf\<close>
  connects to the joined host and port, where a missing or empty \<open>rpcbind\<close> stands for
  127.0.0.1 and a missing or empty \<open>rpcport\<close> for 23811.
\<close>

theorem NewZRPCFromConf_defaults:
  assumes "load confPath = Inr cfg"
    and "cfg ''rpcuser'' = Some u" and "u \<noteq> []"
    and "cfg ''rpcpassword'' = Some pw" and "pw \<noteq> []"
  shows "NewZRPCFromConf load new confPath =
         new \<lparr>Host = net_JoinHostPort
                       (case cfg ''rpcbind'' of None \<Rightarrow> ''127.0.0.1''
                        | Some a \<Rightarrow> if a = [] then ''127.0.0.1'' else a)
                       (case cfg ''rpcport'' of None \<Rightarrow> ''23811''
                        | Some p \<Rightarrow> if p = [] then ''23811'' else p),
              User = u, Pass = pw, HTTPPostMode = True, DisableTLS = True\<rparr>"
  using assms
  by (simp add: NewZRPCFromConf_def NewZRPCFromCreds_def Key_String_def Let_def
        split: option.splits)

text \<open>A conf file with the credentials only: the client connects to 127.0.0.1:23811.\<close>

theorem NewZRPCFromConf_defaults_witness:
  "conf_full ''rpcuser'' = Some ''zero'' \<and> ''zero'' \<noteq> [] \<and>
   conf_full ''rpcpassword'' = Some ''secret'' \<and> ''secret'' \<noteq> [] \<and>
   conf_full ''rpcbind'' = None \<and> conf_full ''rpcport'' = None \<and>
   NewZRPCFromConf (\<lambda>p. Inr conf_full) (\<lambda>cfg. (Some (Client cfg), None)) ''zero.conf'' =
     (Some (Client \<lparr>Host = ''127.0.0.1:23811'', User = ''zero'', Pass = ''secret'',
                    HTTPPostMode = True, DisableTLS = True\<rparr>), None)"
  using NewZRPCFromConf_defaults [of "\<lambda>p. Inr conf_full" "''zero.conf''" conf_full
          "''zero''" "''secret''" "\<lambda>cfg. (Some (Client cfg), None)"]
  by (simp add: conf_full_def net_JoinHostPort_def)

section \<open>The start of the process\<close>

text \<open>
  C3, as the code has it. When the process got past the flag checks, the log file and the
  TLS files, and \<open>NewZRPCFromConf\<close> returns an error, \<open>main\<close> does not exit on that
  account: it logs a warning, takes the client that \<open>NewZRPCFromCreds\<close> returns for
  127.0.0.1:23811 with empty credentials, and starts both ingestors with it. Up to the
  start of the ingestors \<open>main\<close> has not exited, and has started no goroutine that
  exits the process.
\<close>

theorem conf_failure_falls_back:
  assumes "startup_ok e opts"
    and "snd (NewZRPCFromConf (ini_Load e) (rpcclient_New e) (zcashConfPath opts)) \<noteq> None"
  shows "rpcClient_of e opts =
           fst (NewZRPCFromCreds (rpcclient_New e) ''127.0.0.1:23811'' [] []) \<and>
         (\<exists>pre liveStart n fl post.
            main e opts =
              pre @ [Go_BlockIngestor (rpcClient_of e opts) stopChan liveStart,
                     Go_HistoricalBlockIngestor (rpcClient_of e opts) (liveStart - 1) n fl] @
              post \<and>
            Log_Warn ''zcash.conf failed, will try empty credentials for rpc'' \<in> set pre \<and>
            \<not> list_ex is_exit pre \<and> \<not> list_ex goroutine_exit pre)"
proof -
  have w: "Log_Warn ''zcash.conf failed, will try empty credentials for rpc''
             \<in> set (snd (rpc_init e opts))"
    using assms(2)
    by (auto simp add: rpc_init_def split: prod.splits option.splits)
  have c: "rpcClient_of e opts =
             fst (NewZRPCFromCreds (rpcclient_New e) ''127.0.0.1:23811'' [] [])"
    using assms(2)
    by (auto simp add: rpcClient_of_def rpc_init_def split: prod.splits option.splits)
  from main_until_ingestors [OF assms(1)] obtain pre post where
    m: "main e opts = pre @ spawned e opts @ post"
       "set (snd (rpc_init e opts)) \<subseteq> set pre"
       "\<not> list_ex is_exit pre" "\<not> list_ex goroutine_exit pre"
    by blast
  from m w have "Log_Warn ''zcash.conf failed, will try empty credentials for rpc'' \<in> set pre"
    by blast
  with m c show ?thesis
    unfolding spawned_def by blast
qed

text \<open>
  With the conf file unreadable, the client is the one made for 127.0.0.1:23811 with
  empty credentials.
\<close>

theorem conf_failure_falls_back_witness:
  "startup_ok env_no_conf opts_no_tls \<and>
   snd (NewZRPCFromConf (ini_Load env_no_conf) (rpcclient_New env_no_conf)
          (zcashConfPath opts_no_tls)) \<noteq> None \<and>
   rpcClient_of env_no_conf opts_no_tls =
     Some (Client \<lparr>Host = ''127.0.0.1:23811'', User = [], Pass = [],
                   HTTPPostMode = True, DisableTLS = True\<rparr>)"
proof -
  have ok: "startup_ok env_no_conf opts_no_tls"
    by (simp add: startup_ok_def env_no_conf_def env_up_def opts_no_tls_def opts_default_def)
  have f: "snd (NewZRPCFromConf (ini_Load env_no_conf) (rpcclient_New env_no_conf)
                  (zcashConfPath opts_no_tls)) \<noteq> None"
    by (simp add: eval_main env_no_conf_def)
  from conf_failure_falls_back [OF ok f] ok f show ?thesis
    by (simp add: NewZRPCFromCreds_def env_no_conf_def env_up_def)
qed

text \<open>
  C3 as stated fails: the conf file cannot be read, and the process still gets to serve;
  \<open>main\<close> does not exit, and the metrics goroutine does not either.
\<close>

theorem conf_failure_does_not_exit:
  "snd (NewZRPCFromConf (ini_Load env_no_conf) (rpcclient_New env_no_conf)
          (zcashConfPath opts_no_tls)) \<noteq> None \<and>
   \<not> list_ex is_exit (main env_no_conf opts_no_tls) \<and>
   \<not> list_ex goroutine_exit (main env_no_conf opts_no_tls) \<and>
   Server_Serve ''127.0.0.1:9067'' \<in> set (main env_no_conf opts_no_tls)"
  by (simp add: eval_main env_no_conf_def)

text \<open>
  C4, as the code has it. A start that got as far as the ingestors registers SIGINT and
  SIGTERM and starts one handler, which stops the gRPC server gracefully and then sends
  on \<open>stopChan\<close>, its only send. Of the two ingestors, \<open>BlockIngestor\<close> holds
  \<open>stopChan\<close> and is the one told to stop; \<open>HistoricalBlockIngestor\<close> is given no
  channel and is not told.
\<close>

theorem shutdown_signals_live_ingestor:
  assumes "startup_ok e opts"
  shows "Signal_Notify signals [SIGINT, SIGTERM] \<in> set (main e opts) \<and>
         Go_signal_handler signals
           [Log_caught_signal, Server_GracefulStop, Chan_send stopChan True]
             \<in> set (main e opts) \<and>
         concat (map handler_sends (main e opts)) = [stopChan] \<and>
         (\<exists>c s. filter (stop_signalled (main e opts)) (filter is_ingestor (main e opts)) =
                  [Go_BlockIngestor c stopChan s]) \<and>
         (\<exists>c s n fl. filter (\<lambda>ev. \<not> stop_signalled (main e opts) ev)
                        (filter is_ingestor (main e opts)) =
                  [Go_HistoricalBlockIngestor c s n fl])"
proof -
  have sub: "set (main_ingest e opts (rpcClient_of e opts)) \<subseteq> set (main e opts)"
    using ingest_in_rpc [of e opts] rpc_in_main [OF assms] by blast
  have s: "concat (map handler_sends (main e opts)) = [stopChan]"
    using assms by (simp add: main_sends)
  have f: "filter is_ingestor (main e opts) = spawned e opts"
    using assms by (simp add: main_ingestors)
  show ?thesis
    using sub handler_in_ingest [of e opts "rpcClient_of e opts"]
    by (auto simp add: s f spawned_def stop_signalled_def)
qed

theorem shutdown_signals_live_ingestor_witness:
  "startup_ok env_up opts_no_tls \<and>
   filter (stop_signalled (main env_up opts_no_tls))
     (filter is_ingestor (main env_up opts_no_tls)) =
     [Go_BlockIngestor (Some (Client \<lparr>Host = ''127.0.0.1:23811'', User = ''zero'',
        Pass = ''secret'', HTTPPostMode = True, DisableTLS = True\<rparr>)) stopChan 999900]"
proof -
  have m: "filter is_ingestor (main env_up opts_no_tls) =
     [Go_BlockIngestor (Some (Client \<lparr>Host = ''127.0.0.1:23811'', User = ''zero'',
        Pass = ''secret'', HTTPPostMode = True, DisableTLS = True\<rparr>)) stopChan 999900,
      Go_HistoricalBlockIngestor (Some (Client \<lparr>Host = ''127.0.0.1:23811'', User = ''zero'',
        Pass = ''secret'', HTTPPostMode = True, DisableTLS = True\<rparr>)) 999899 40000 492850]"
    by (simp add: eval_main)
  from shutdown_signals_live_ingestor [OF startup_ok_up] startup_ok_up show ?thesis
    by (auto simp add: m stop_signalled_def)
qed

text \<open>
  C4 as stated fails: in the start with every call succeeding, the historical ingestor
  is running and the signal handler sends on no channel it holds.
\<close>

theorem historical_ingestor_not_signalled:
  "Go_HistoricalBlockIngestor (Some (Client \<lparr>Host = ''127.0.0.1:23811'', User = ''zero'',
        Pass = ''secret'', HTTPPostMode = True, DisableTLS = True\<rparr>)) 999899 40000 492850
     \<in> set (main env_up opts_no_tls) \<and>
   \<not> stop_signalled (main env_up opts_no_tls)
       (Go_HistoricalBlockIngestor (Some (Client \<lparr>Host = ''127.0.0.1:23811'',
          User = ''zero'', Pass = ''secret'', HTTPPostMode = True, DisableTLS = True\<rparr>))
          999899 40000 492850)"
  by (simp add: eval_main stop_signalled_def)

text \<open>
  C5. A start that got as far as the ingestors starts exactly one live ingestor and one
  historical ingestor; the historical one starts at the live start height minus one,
  is given the cache size as its number of blocks, and has the sapling activation
  height as its floor. The subtraction is Go's; it is the integer one below unless the
  sapling height is the least \<open>int\<close>.
\<close>

theorem historical_start_below_live:
  assumes "startup_ok e opts"
  shows "\<exists>liveStart.
           List.map_filter live_start (main e opts) = [liveStart] \<and>
           List.map_filter historical_args (main e opts) =
             [(liveStart - 1, cacheSize opts, saplingHeight_of e opts)] \<and>
           (- (2^63) < sint (saplingHeight_of e opts) \<longrightarrow>
              sint (liveStart - 1) = sint liveStart - 1)"
proof -
  let ?cs = "cacheStart_of (blockHeight_of e opts) (saplingHeight_of e opts)"
  have f: "filter is_ingestor (main e opts) = spawned e opts"
    using assms by (simp add: main_ingestors)
  have 1: "List.map_filter live_start (main e opts) = [?cs]"
    by (subst live_start_ingestors) (simp add: f spawned_def)
  have 2: "List.map_filter historical_args (main e opts) =
             [(?cs - 1, cacheSize opts, saplingHeight_of e opts)]"
    by (subst historical_args_ingestors) (simp add: f spawned_def)
  have 3: "sint (?cs - 1) = sint ?cs - 1" if "- (2^63) < sint (saplingHeight_of e opts)"
  proof -
    have "sint (saplingHeight_of e opts) \<le> sint ?cs"
      using cacheStart_ge_sapling [of "saplingHeight_of e opts" "blockHeight_of e opts"]
      by (simp add: word_sle_eq)
    with that have "- (2^63) < sint ?cs" by linarith
    then show ?thesis by (rule sint_pred)
  qed
  from 1 2 3 show ?thesis by blast
qed

theorem historical_start_below_live_witness:
  "startup_ok env_up opts_no_tls \<and>
   List.map_filter live_start (main env_up opts_no_tls) = [999900] \<and>
   List.map_filter historical_args (main env_up opts_no_tls) = [(999899, 40000, 492850)] \<and>
   - (2^63) < sint (saplingHeight_of env_up opts_no_tls)"
proof -
  have m: "List.map_filter live_start (main env_up opts_no_tls) = [999900]"
    by (simp add: eval_main)
  have s: "saplingHeight_of env_up opts_no_tls = 492850"
    by (simp add: saplingHeight_of_def env_up_def)
  from historical_start_below_live [OF startup_ok_up] m s startup_ok_up show ?thesis
    by (auto simp add: opts_no_tls_def opts_default_def)
qed

text \<open>
  C10. The start height of every live ingestor that \<open>main\<close> starts is the larger, in
  Go's signed order, of the sapling activation height and the block height minus 100,
  both as \<open>GetSaplingInfo\<close> reports them for the ingestor's client: it is at least
  each of them and equal to one of them. When the block height is at least 100 above
  the least \<open>int\<close>, so that the subtraction does not wrap, this is the maximum of the
  two integers.
\<close>

theorem cacheStart_is_max:
  assumes "Go_BlockIngestor c ch start \<in> set (main e opts)"
  shows "case GetSaplingInfo e c of
           (saplingHeight, blockHeight, chainName, branchID, err) \<Rightarrow>
             saplingHeight \<le>s start \<and> blockHeight - 100 \<le>s start \<and>
             (start = saplingHeight \<or> start = blockHeight - 100) \<and>
             (- (2^63) + 100 \<le> sint blockHeight \<longrightarrow>
                sint start = max (sint blockHeight - 100) (sint saplingHeight))"
proof -
  from assms have "Go_BlockIngestor c ch start \<in> set (filter is_ingestor (main e opts))"
    by simp
  then have c: "c = rpcClient_of e opts"
    and s: "start = cacheStart_of (blockHeight_of e opts) (saplingHeight_of e opts)"
    by (auto simp add: main_ingestors spawned_def split: if_splits)
  obtain sh bh cn br err where g: "GetSaplingInfo e c = (sh, bh, cn, br, err)"
    by (cases "GetSaplingInfo e c" rule: prod_cases5)
  with c have "saplingHeight_of e opts = sh" "blockHeight_of e opts = bh"
    by (simp_all add: saplingHeight_of_def blockHeight_of_def)
  with s have "start = cacheStart_of bh sh" by simp
  with g show ?thesis
    using cacheStart_ge_sapling [of sh bh] cacheStart_ge_block [of bh sh]
      cacheStart_cases [of bh sh] cacheStart_sint [of bh sh]
    by auto
qed

theorem cacheStart_is_max_witness:
  "Go_BlockIngestor (Some (Client \<lparr>Host = ''127.0.0.1:23811'', User = ''zero'',
       Pass = ''secret'', HTTPPostMode = True, DisableTLS = True\<rparr>)) stopChan 999900
     \<in> set (main env_up opts_no_tls) \<and>
   (492850 :: goint) \<le>s 999900 \<and> (1000000 :: goint) - 100 \<le>s 999900 \<and>
   - (2^63) + 100 \<le> sint (1000000 :: goint) \<and>
   sint (999900 :: goint) = max (sint (1000000 :: goint) - 100) (sint (492850 :: goint))"
proof -
  have m: "Go_BlockIngestor (Some (Client \<lparr>Host = ''127.0.0.1:23811'', User = ''zero'',
       Pass = ''secret'', HTTPPostMode = True, DisableTLS = True\<rparr>)) stopChan 999900
     \<in> set (main env_up opts_no_tls)"
    by (simp add: eval_main)
  show ?thesis
    using m cacheStart_is_max [OF m] by (simp add: env_up_def)
qed

text \<open>
  C8, as the code has it. Without \<open>-no-tls\<close>, a start with a conf file and without a
  certificate path or without a key path prints two lines and exits with status 1.
  With \<open>-no-tls\<close>, the certificate and key paths have no effect on what the process
  does, so their absence causes no exit.
\<close>

theorem tls_material_optional_with_no_tls:
  "(zcashConfPath opts \<noteq> [] \<and> \<not> noTLS opts \<and>
    (tlsCertPath opts = [] \<or> tlsKeyPath opts = []) \<longrightarrow>
      (\<exists>m1 m2. main e opts = [Println m1, Println m2, Os_Exit 1])) \<and>
   (noTLS opts \<longrightarrow> main e (opts\<lparr>tlsCertPath := c, tlsKeyPath := k\<rparr>) = main e opts)"
  by (simp add: main_def main_log_def main_grpc_def rpc_tls Let_def cong: option.case_cong)

theorem tls_material_optional_with_no_tls_witness:
  "zcashConfPath opts_default \<noteq> [] \<and> \<not> noTLS opts_default \<and>
   tlsCertPath opts_default = [] \<and>
   last (main env_up opts_default) = Os_Exit 1 \<and>
   noTLS opts_no_tls \<and>
   main env_up (opts_no_tls\<lparr>tlsCertPath := ''cert.pem'', tlsKeyPath := ''key.pem''\<rparr>) =
     main env_up opts_no_tls"
  using tls_material_optional_with_no_tls [of opts_default env_up]
    tls_material_optional_with_no_tls
      [where opts = opts_no_tls and e = env_up and c = "''cert.pem''" and k = "''key.pem''"]
  by (auto simp add: opts_default_def opts_no_tls_def)

text \<open>
  C8 as stated fails: with the flag defaults and a conf file, the process exits because
  the certificate and key paths are empty; with the two paths given, and nothing else
  changed, it does not.
\<close>

theorem missing_tls_material_exits:
  "tlsCertPath opts_default = [] \<and> tlsKeyPath opts_default = [] \<and>
   list_ex is_exit (main env_up opts_default) \<and>
   \<not> list_ex is_exit
       (main env_up (opts_default\<lparr>tlsCertPath := ''cert.pem'', tlsKeyPath := ''key.pem''\<rparr>))"
  by (simp add: eval_main)

section \<open>The metrics\<close>


end
